theory Spec2Isabelle
  imports Main
begin

section \<open>Python values, exceptions and the operations app.py applies to them\<close>

text \<open>
  The Flask application \<^verbatim>\<open>Emergency-Response-Agent/app.py\<close> is glue code: it moves
  JSON values between HTTP requests and four agent objects whose classes live in sibling
  packages.  The embedding keeps the Python values the handlers touch, the exceptions
  every step can raise, the state of the global \<^verbatim>\<open>agent_manager\<close>, and a chronological
  log of every call that leaves the file (constructors, event-loop operations, awaited
  agent methods).

  A Python float is passed around but never computed with; \<open>Finite m e\<close> stands for the
  double \<open>m * 2^e\<close>.  \<open>PObject n\<close> is any other Python object (an instance of class \<open>n\<close>),
  which Flask's JSON provider cannot serialise.
\<close>

datatype pyfloat = Finite int int | PosInf | NegInf | NaN

datatype pyval =
    PNone
  | PBool bool
  | PInt int
  | PFloat pyfloat
  | PStr string
  | PList "pyval list"
  | PDict "(string \<times> pyval) list"
  | PObject string

text \<open>
  Exceptions, all of them subclasses of \<^verbatim>\<open>Exception\<close> (the handlers' \<^verbatim>\<open>except Exception\<close>
  clauses catch nothing else).  \<open>OtherError c m\<close> is an exception of class \<open>c\<close> raised
  with message \<open>m\<close>.
\<close>

datatype exn =
    KeyError string
  | AttributeError string
  | TypeError string
  | ValueError string
  | OtherError string string

definition quoted :: "string \<Rightarrow> string" where
  "quoted s = [CHR 0x27] @ s @ [CHR 0x27]"

text \<open>\<^verbatim>\<open>str(e)\<close>: the message; for a \<^verbatim>\<open>KeyError\<close> the repr of the missing key.\<close>

fun str_exn :: "exn \<Rightarrow> string" where
  "str_exn (KeyError k) = quoted k"
| "str_exn (AttributeError m) = m"
| "str_exn (TypeError m) = m"
| "str_exn (ValueError m) = m"
| "str_exn (OtherError c m) = m"

fun type_name :: "pyval \<Rightarrow> string" where
  "type_name PNone = ''NoneType''"
| "type_name (PBool b) = ''bool''"
| "type_name (PInt n) = ''int''"
| "type_name (PFloat f) = ''float''"
| "type_name (PStr s) = ''str''"
| "type_name (PList xs) = ''list''"
| "type_name (PDict kvs) = ''dict''"
| "type_name (PObject c) = c"

text \<open>Truth value testing, as \<^verbatim>\<open>if x\<close> and \<^verbatim>\<open>not x\<close> do it.\<close>

fun truthy :: "pyval \<Rightarrow> bool" where
  "truthy PNone = False"
| "truthy (PBool b) = b"
| "truthy (PInt n) = (n \<noteq> 0)"
| "truthy (PFloat f) = (case f of Finite m e \<Rightarrow> m \<noteq> 0 | _ \<Rightarrow> True)"
| "truthy (PStr s) = (s \<noteq> [])"
| "truthy (PList xs) = (xs \<noteq> [])"
| "truthy (PDict kvs) = (kvs \<noteq> [])"
| "truthy (PObject c) = True"

text \<open>\<^verbatim>\<open>d.get(k, default)\<close>: only a dict has the method.\<close>

definition py_get :: "pyval \<Rightarrow> string \<Rightarrow> pyval \<Rightarrow> exn + pyval" where
  "py_get d k dflt =
     (case d of
        PDict kvs \<Rightarrow> Inr (case map_of kvs k of None \<Rightarrow> dflt | Some v \<Rightarrow> v)
      | _ \<Rightarrow> Inl (AttributeError
                 (quoted (type_name d) @ '' object has no attribute '' @ quoted ''get'')))"

text \<open>\<^verbatim>\<open>d[k]\<close> with a string key \<open>k\<close>.\<close>

definition py_getitem :: "pyval \<Rightarrow> string \<Rightarrow> exn + pyval" where
  "py_getitem d k =
     (case d of
        PDict kvs \<Rightarrow> (case map_of kvs k of None \<Rightarrow> Inl (KeyError k) | Some v \<Rightarrow> Inr v)
      | PList xs \<Rightarrow> Inl (TypeError ''list indices must be integers or slices, not str'')
      | PStr s \<Rightarrow> Inl (TypeError ''string indices must be integers'')
      | _ \<Rightarrow> Inl (TypeError (quoted (type_name d) @ '' object is not subscriptable'')))"

text \<open>
  \<^verbatim>\<open>for x in v\<close>: the items the loop visits, or the \<^verbatim>\<open>TypeError\<close> of a value that is not
  iterable.  A string yields its characters, a dict its keys.
\<close>

definition py_iter :: "pyval \<Rightarrow> exn + pyval list" where
  "py_iter v =
     (case v of
        PList xs \<Rightarrow> Inr xs
      | PStr s \<Rightarrow> Inr (map (\<lambda>c. PStr [c]) s)
      | PDict kvs \<Rightarrow> Inr (map (\<lambda>kv. PStr (fst kv)) kvs)
      | _ \<Rightarrow> Inl (TypeError (quoted (type_name v) @ '' object is not iterable'')))"

text \<open>
  \<^verbatim>\<open>jsonify\<close>: the value itself when the JSON provider can serialise it, a \<^verbatim>\<open>TypeError\<close>
  otherwise.
\<close>

primrec serializable :: "pyval \<Rightarrow> bool" where
  "serializable PNone = True"
| "serializable (PBool b) = True"
| "serializable (PInt n) = True"
| "serializable (PFloat f) = True"
| "serializable (PStr s) = True"
| "serializable (PList xs) = list_all id (map serializable xs)"
| "serializable (PDict kvs) = list_all snd (map (map_prod id serializable) kvs)"
| "serializable (PObject c) = False"

datatype response = Response (body: pyval) (status: nat)

definition jsonify :: "pyval \<Rightarrow> exn + response" where
  "jsonify v =
     (if serializable v then Inr (Response v 200)
      else Inl (TypeError ''Object is not JSON serializable''))"

text \<open>\<^verbatim>\<open>return jsonify(v), code\<close>\<close>

definition jsonify_status :: "pyval \<Rightarrow> nat \<Rightarrow> exn + response" where
  "jsonify_status v code =
     (case jsonify v of Inl e \<Rightarrow> Inl e | Inr r \<Rightarrow> Inr (Response (body r) code))"


section \<open>The classes app.py imports\<close>

text \<open>
  \<^verbatim>\<open>src.models.emergency_models\<close> and the four agent packages are not part of the file.
  Their data classes appear here with exactly the attributes app.py reads or writes;
  constructing a scenario from all nine attributes stores them as given.  An enum
  member is represented by its \<^verbatim>\<open>.value\<close>.  The plan's \<^verbatim>\<open>scenario_id\<close> and the
  milestone's \<^verbatim>\<open>description\<close> carry a prefix, since a scenario has attributes of the
  same names.
\<close>

datatype datetime = Datetime nat nat nat nat nat nat nat

record EmergencyScenario =
  scenario_id :: pyval
  incident_type :: pyval
  severity_level :: pyval
  location :: pyval
  affected_area_radius :: pyval
  estimated_population_affected :: pyval
  duration_hours :: pyval
  description :: pyval
  special_conditions :: pyval

record ResourceAllocation =
  personnel_deployment :: pyval
  equipment_requirements :: pyval
  facility_assignments :: pyval

record Milestone =
  milestone_name :: pyval
  estimated_time :: datetime
  responsible_agency :: pyval
  milestone_description :: pyval

record ResponsePlan =
  plan_id :: pyval
  plan_scenario_id :: pyval
  lead_agency :: pyval
  supporting_agencies :: pyval
  activation_time :: datetime
  estimated_duration :: pyval
  immediate_actions :: pyval
  resource_allocation :: ResourceAllocation
  timeline_milestones :: "Milestone list"
  communication_plan :: pyval

record WeatherData =
  temperature :: pyval
  humidity :: pyval
  wind_speed :: pyval
  wind_direction :: pyval
  pressure :: pyval
  visibility :: pyval
  conditions :: pyval

datatype agent_class =
    EmergencyResponseCoordinator
  | PolicyComplianceChecker
  | VirtualCitizenAssistant
  | DocumentEligibilityAgent

text \<open>An agent instance: its class and the identity it got when it was constructed.\<close>

datatype agent = Agent agent_class nat

section \<open>Calls that leave the file\<close>

text \<open>The coroutine objects app.py creates by calling an \<^verbatim>\<open>async\<close> method: one of an agent, or
  \<^verbatim>\<open>agent_manager.initialize()\<close>.\<close>

datatype coroutine =
    Co_initialize agent
  | Co_coordinate_response agent EmergencyScenario
  | Co_get_current_conditions agent pyfloat pyfloat
  | Co_analyze_document agent pyval
  | Co_analyze_policy_text agent pyval
  | Co_chat agent pyval
  | Co_process_document agent pyval pyval pyval
  | Co_manager_initialize

text \<open>
  The log: a constructor call (with the identity the new object would get), the three
  event-loop operations app.py uses, each on the loop of the given identity, and an
  \<^verbatim>\<open>await\<close> inside a coroutine of the file itself.
\<close>

datatype event =
    Construct agent_class nat
  | New_event_loop nat
  | Set_event_loop nat
  | Run_until_complete nat coroutine
  | Loop_close nat
  | Await coroutine

text \<open>
  Everything outside the file is a parameter: Python's parsing and rounding of numbers,
  \<^verbatim>\<open>str\<close>, the formatting of dates, the enum lookups of the models module, the
  templates, and the outcome of every constructor and agent method.  An outcome may
  depend on all the calls made before it, so two calls of the same method need not
  agree.  \<open>Inl e\<close> means the call raises \<open>e\<close>; \<open>weather_service\<close> says whether reading
  the attribute \<^verbatim>\<open>coord.weather_service\<close> raises.  The three event-loop operations of
  asyncio do not raise.
\<close>

record world =
  int_of_str :: "string \<Rightarrow> exn + int"
  int_of_float :: "pyfloat \<Rightarrow> exn + int"
  float_of_str :: "string \<Rightarrow> exn + pyfloat"
  float_of_int :: "int \<Rightarrow> exn + pyfloat"
  py_str :: "pyval \<Rightarrow> string"
  strftime :: "datetime \<Rightarrow> string \<Rightarrow> string"
  isoformat :: "datetime \<Rightarrow> string"
  EmergencyType :: "pyval \<Rightarrow> exn + pyval"
  SeverityLevel :: "pyval \<Rightarrow> exn + pyval"
  EmergencyType_values :: "pyval list"
  SeverityLevel_values :: "pyval list"
  EmergencyScenario_defaults :: "exn + EmergencyScenario"
  render_template :: "string \<Rightarrow> (string \<times> pyval) list \<Rightarrow> exn + string"
  constructor :: "agent_class \<Rightarrow> event list \<Rightarrow> exn option"
  agent_initialize :: "agent \<Rightarrow> event list \<Rightarrow> exn + unit"
  coordinate_response :: "agent \<Rightarrow> EmergencyScenario \<Rightarrow> event list \<Rightarrow> exn + ResponsePlan"
  weather_service :: "agent \<Rightarrow> event list \<Rightarrow> exn option"
  get_current_conditions :: "agent \<Rightarrow> pyfloat \<Rightarrow> pyfloat \<Rightarrow> event list \<Rightarrow> exn + WeatherData"
  analyze_document :: "agent \<Rightarrow> pyval \<Rightarrow> event list \<Rightarrow> exn + pyval"
  analyze_policy_text :: "agent \<Rightarrow> pyval \<Rightarrow> event list \<Rightarrow> exn + pyval"
  chat :: "agent \<Rightarrow> pyval \<Rightarrow> event list \<Rightarrow> exn + pyval"
  process_document :: "agent \<Rightarrow> pyval \<Rightarrow> pyval \<Rightarrow> pyval \<Rightarrow> event list \<Rightarrow> exn + pyval"


text \<open>
  \<^verbatim>\<open>int(v)\<close> and \<^verbatim>\<open>float(v)\<close>: an int or a float converts to itself, a bool to 0 or 1;
  the world parses strings and converts between the two number types; nothing else
  is a number.
\<close>

definition py_int :: "world \<Rightarrow> pyval \<Rightarrow> exn + int" where
  "py_int W v =
     (case v of
        PInt n \<Rightarrow> Inr n
      | PBool b \<Rightarrow> Inr (if b then 1 else 0)
      | PFloat f \<Rightarrow> int_of_float W f
      | PStr s \<Rightarrow> int_of_str W s
      | _ \<Rightarrow> Inl (TypeError
                 (''int() argument must be a string, a bytes-like object or a real number, not ''
                  @ quoted (type_name v))))"

definition py_float :: "world \<Rightarrow> pyval \<Rightarrow> exn + pyfloat" where
  "py_float W v =
     (case v of
        PFloat f \<Rightarrow> Inr f
      | PInt n \<Rightarrow> float_of_int W n
      | PBool b \<Rightarrow> float_of_int W (if b then 1 else 0)
      | PStr s \<Rightarrow> float_of_str W s
      | _ \<Rightarrow> Inl (TypeError
                 (''float() argument must be a string or a real number, not ''
                  @ quoted (type_name v))))"

section \<open>The agent manager and the program state\<close>

text \<open>
  \<^verbatim>\<open>IntegratedAgentManager\<close>: an attribute is \<open>None\<close> where Python has \<^verbatim>\<open>None\<close>.  Agent
  instances are ordinary objects, so \<^verbatim>\<open>if manager.x\<close> and \<^verbatim>\<open>manager.x is not None\<close> agree
  on them; both are \<open>x \<noteq> None\<close> here.
\<close>

record IntegratedAgentManager =
  coordinator :: "agent option"
  policy_checker :: "agent option"
  citizen_assistant :: "agent option"
  document_agent :: "agent option"
  initialized :: bool

text \<open>The truth value of an attribute of the manager: \<^verbatim>\<open>None\<close> is false, an agent is true.\<close>

definition attr_truthy :: "agent option \<Rightarrow> bool" where
  "attr_truthy x = (case x of None \<Rightarrow> False | Some a \<Rightarrow> True)"

text \<open>\<^verbatim>\<open>IntegratedAgentManager.__init__\<close>\<close>

definition new_manager :: IntegratedAgentManager where
  "new_manager =
     \<lparr>coordinator = None, policy_checker = None, citizen_assistant = None,
      document_agent = None, initialized = False\<rparr>"

text \<open>
  The state: the global \<^verbatim>\<open>agent_manager\<close>, the log, and the identity the next new object
  (agent or event loop) gets.
\<close>

record state =
  agent_manager :: IntegratedAgentManager
  trace :: "event list"
  next_id :: nat

definition initial_state :: state where
  "initial_state = \<lparr>agent_manager = new_manager, trace = [], next_id = 0\<rparr>"

definition log_event :: "event \<Rightarrow> state \<Rightarrow> state" where
  "log_event ev st = st\<lparr>trace := trace st @ [ev]\<rparr>"

text \<open>The events a computation added to the log of \<open>st\<close> on its way to \<open>st'\<close>.\<close>

definition events_since :: "state \<Rightarrow> state \<Rightarrow> event list" where
  "events_since st st' = drop (length (trace st)) (trace st')"

text \<open>Calling the constructor of an agent class.\<close>

definition construct :: "world \<Rightarrow> agent_class \<Rightarrow> state \<Rightarrow> (exn + agent) \<times> state" where
  "construct W c st =
     (let st' = (log_event (Construct c (next_id st)) st)\<lparr>next_id := Suc (next_id st)\<rparr>
      in case constructor W c (trace st) of
           Some e \<Rightarrow> (Inl e, st')
         | None \<Rightarrow> (Inr (Agent c (next_id st)), st'))"

text \<open>\<^verbatim>\<open>asyncio.new_event_loop()\<close>, \<^verbatim>\<open>asyncio.set_event_loop(loop)\<close>, \<^verbatim>\<open>loop.close()\<close>\<close>

definition new_event_loop :: "state \<Rightarrow> nat \<times> state" where
  "new_event_loop st =
     (next_id st, (log_event (New_event_loop (next_id st)) st)\<lparr>next_id := Suc (next_id st)\<rparr>)"

definition set_event_loop :: "nat \<Rightarrow> state \<Rightarrow> state" where
  "set_event_loop lp st = log_event (Set_event_loop lp) st"

definition loop_close :: "nat \<Rightarrow> state \<Rightarrow> state" where
  "loop_close lp st = log_event (Loop_close lp) st"

text \<open>
  \<^verbatim>\<open>loop.run_until_complete(co)\<close>: the coroutine runs on the loop; its outcome is the
  world's, given the calls made so far.
\<close>

definition run_until_complete ::
  "nat \<Rightarrow> coroutine \<Rightarrow> (event list \<Rightarrow> exn + 'a) \<Rightarrow> state \<Rightarrow> (exn + 'a) \<times> state" where
  "run_until_complete lp co outcome st =
     (outcome (trace st), log_event (Run_until_complete lp co) st)"

text \<open>\<^verbatim>\<open>await co\<close> inside \<^verbatim>\<open>initialize\<close>\<close>

definition await :: "coroutine \<Rightarrow> (event list \<Rightarrow> exn + 'a) \<Rightarrow> state \<Rightarrow> (exn + 'a) \<times> state" where
  "await co outcome st = (outcome (trace st), log_event (Await co) st)"

definition get_coordinator :: "world \<Rightarrow> state \<Rightarrow> (exn + agent) \<times> state" where
  "get_coordinator W st =
     (case coordinator (agent_manager st) of
        None \<Rightarrow>
          (case construct W EmergencyResponseCoordinator st of
             (Inl e, st') \<Rightarrow> (Inl e, st')
           | (Inr a, st') \<Rightarrow>
               (Inr a, st'\<lparr>agent_manager := (agent_manager st')\<lparr>coordinator := Some a\<rparr>\<rparr>))
      | Some a \<Rightarrow> (Inr a, st))"

definition get_agent_manager :: "state \<Rightarrow> IntegratedAgentManager" where
  "get_agent_manager st = agent_manager st"

section \<open>Optional imports and start-up\<close>

text \<open>
  The module-level names the three guarded imports leave behind: the class (or \<^verbatim>\<open>None\<close>)
  and the availability flag of each optional agent.
\<close>

record module_globals =
  PolicyComplianceChecker_name :: "agent_class option"
  policy_checker_available :: bool
  VirtualCitizenAssistant_name :: "agent_class option"
  citizen_assistant_available :: bool
  DocumentEligibilityAgent_name :: "agent_class option"
  document_agent_available :: bool

text \<open>
  Lines 28 to 57.  The three flags start as \<^verbatim>\<open>False\<close>; each \<^verbatim>\<open>try\<close> block binds the class
  and sets the flag when the import succeeds, and binds \<^verbatim>\<open>None\<close> when it raises.  The
  arguments say how each \<^verbatim>\<open>from main import ...\<close> ends.
\<close>

definition import_agents :: "exn option \<Rightarrow> exn option \<Rightarrow> exn option \<Rightarrow> module_globals" where
  "import_agents policy_import citizen_import document_import =
     \<lparr>PolicyComplianceChecker_name =
        (case policy_import of None \<Rightarrow> Some PolicyComplianceChecker | Some e \<Rightarrow> None),
      policy_checker_available =
        (case policy_import of None \<Rightarrow> True | Some e \<Rightarrow> False),
      VirtualCitizenAssistant_name =
        (case citizen_import of None \<Rightarrow> Some VirtualCitizenAssistant | Some e \<Rightarrow> None),
      citizen_assistant_available =
        (case citizen_import of None \<Rightarrow> True | Some e \<Rightarrow> False),
      DocumentEligibilityAgent_name =
        (case document_import of None \<Rightarrow> Some DocumentEligibilityAgent | Some e \<Rightarrow> None),
      document_agent_available =
        (case document_import of None \<Rightarrow> True | Some e \<Rightarrow> False)\<rparr>"

text \<open>
  The pattern \<^verbatim>\<open>self.x = Cls(...); await self.x.initialize()\<close>, which \<^verbatim>\<open>initialize\<close> repeats
  for every agent; \<open>store\<close> is the assignment to the attribute.
\<close>

definition start_agent ::
  "world \<Rightarrow> agent_class \<Rightarrow> (agent \<Rightarrow> IntegratedAgentManager \<Rightarrow> IntegratedAgentManager) \<Rightarrow>
   state \<Rightarrow> (exn + unit) \<times> state" where
  "start_agent W c store st =
     (case construct W c st of
        (Inl e, st1) \<Rightarrow> (Inl e, st1)
      | (Inr a, st1) \<Rightarrow>
          await (Co_initialize a) (agent_initialize W a)
            (st1\<lparr>agent_manager := store a (agent_manager st1)\<rparr>))"

definition set_initialized :: "state \<Rightarrow> state" where
  "set_initialized st = st\<lparr>agent_manager := (agent_manager st)\<lparr>initialized := True\<rparr>\<rparr>"

text \<open>The outer \<^verbatim>\<open>try\<close> block of \<^verbatim>\<open>initialize\<close> (lines 81 to 109).\<close>

definition initialize_all :: "world \<Rightarrow> module_globals \<Rightarrow> state \<Rightarrow> (exn + bool) \<times> state" where
  "initialize_all W G st =
     (case start_agent W EmergencyResponseCoordinator (\<lambda>a m. m\<lparr>coordinator := Some a\<rparr>) st of
        (Inl e, st1) \<Rightarrow> (Inl e, st1)
      | (Inr u1, st1) \<Rightarrow>
     (case (if PolicyComplianceChecker_name G \<noteq> None \<and> policy_checker_available G
            then start_agent W PolicyComplianceChecker (\<lambda>a m. m\<lparr>policy_checker := Some a\<rparr>) st1
            else (Inr (), st1)) of
        (Inl e, st2) \<Rightarrow> (Inl e, st2)
      | (Inr u2, st2) \<Rightarrow>
     (case (if VirtualCitizenAssistant_name G \<noteq> None \<and> citizen_assistant_available G
            then start_agent W VirtualCitizenAssistant (\<lambda>a m. m\<lparr>citizen_assistant := Some a\<rparr>) st2
            else (Inr (), st2)) of
        (Inl e, st3) \<Rightarrow> (Inl e, st3)
      | (Inr u3, st3) \<Rightarrow>
     (case (if DocumentEligibilityAgent_name G \<noteq> None \<and> document_agent_available G
            then start_agent W DocumentEligibilityAgent (\<lambda>a m. m\<lparr>document_agent := Some a\<rparr>) st3
            else (Inr (), st3)) of
        (Inl e, st4) \<Rightarrow> (Inl e, st4)
      | (Inr u4, st4) \<Rightarrow> (Inr True, set_initialized st4)))))"

text \<open>The fallback \<^verbatim>\<open>try\<close> block inside the \<^verbatim>\<open>except\<close> clause (lines 114 to 119).\<close>

definition initialize_fallback :: "world \<Rightarrow> state \<Rightarrow> (exn + bool) \<times> state" where
  "initialize_fallback W st =
     (case start_agent W EmergencyResponseCoordinator (\<lambda>a m. m\<lparr>coordinator := Some a\<rparr>) st of
        (Inl e, st1) \<Rightarrow> (Inl e, st1)
      | (Inr u, st1) \<Rightarrow> (Inr True, set_initialized st1))"

text \<open>\<^verbatim>\<open>IntegratedAgentManager.initialize\<close>, called on the global \<^verbatim>\<open>agent_manager\<close>.\<close>

definition initialize :: "world \<Rightarrow> module_globals \<Rightarrow> state \<Rightarrow> bool \<times> state" where
  "initialize W G st =
     (case initialize_all W G st of
        (Inr b, st1) \<Rightarrow> (b, st1)
      | (Inl e, st1) \<Rightarrow>
          (case initialize_fallback W st1 of
             (Inr b, st2) \<Rightarrow> (b, st2)
           | (Inl fallback_error, st2) \<Rightarrow> (False, st2)))"

text \<open>
  The \<^verbatim>\<open>__main__\<close> block up to \<^verbatim>\<open>app.run\<close>: one event loop runs \<^verbatim>\<open>initialize\<close> and is closed.
\<close>

definition main :: "world \<Rightarrow> module_globals \<Rightarrow> state \<Rightarrow> state" where
  "main W G st =
     (let (lp, st1) = new_event_loop st;
          st2 = set_event_loop lp st1;
          (success, st3) = initialize W G (log_event (Run_until_complete lp Co_manager_initialize) st2)
      in loop_close lp st3)"


section \<open>Page routes\<close>

definition index :: "world \<Rightarrow> state \<Rightarrow> (exn + string) \<times> state" where
  "index W st = (render_template W ''index.html'' [], st)"

definition dashboard :: "world \<Rightarrow> state \<Rightarrow> (exn + string) \<times> state" where
  "dashboard W st = (render_template W ''dashboard.html'' [], st)"

definition create_scenario :: "world \<Rightarrow> state \<Rightarrow> (exn + string) \<times> state" where
  "create_scenario W st =
     (let emergency_types = PList (EmergencyType_values W);
          severity_levels = PList (SeverityLevel_values W)
      in (render_template W ''create_scenario.html''
            [(''emergency_types'', emergency_types), (''severity_levels'', severity_levels)],
          st))"

definition scenarios :: "world \<Rightarrow> state \<Rightarrow> (exn + string) \<times> state" where
  "scenarios W st = (render_template W ''scenarios.html'' [], st)"

definition view_plan :: "world \<Rightarrow> string \<Rightarrow> state \<Rightarrow> (exn + string) \<times> state" where
  "view_plan W plan st = (render_template W ''plan_detail.html'' [(''plan_id'', PStr plan)], st)"

definition map_view :: "world \<Rightarrow> state \<Rightarrow> (exn + string) \<times> state" where
  "map_view W st = (render_template W ''map.html'' [], st)"

definition reports :: "world \<Rightarrow> state \<Rightarrow> (exn + string) \<times> state" where
  "reports W st = (render_template W ''reports.html'' [], st)"

definition agents_hub :: "world \<Rightarrow> state \<Rightarrow> (exn + string) \<times> state" where
  "agents_hub W st =
     (let manager = get_agent_manager st;
          agent_status = PDict
            [(''emergency_response'', PBool (coordinator manager \<noteq> None)),
             (''policy_compliance'', PBool (policy_checker manager \<noteq> None)),
             (''citizen_assistant'', PBool (citizen_assistant manager \<noteq> None)),
             (''document_eligibility'', PBool (document_agent manager \<noteq> None))]
      in (render_template W ''agents_hub.html'' [(''agent_status'', agent_status)], st))"

definition policy_compliance :: "world \<Rightarrow> state \<Rightarrow> (exn + string) \<times> state" where
  "policy_compliance W st = (render_template W ''policy_compliance.html'' [], st)"

text \<open>The view function \<^verbatim>\<open>citizen_assistant\<close>; the manager's attribute has the plain name.\<close>

definition citizen_assistant_page :: "world \<Rightarrow> state \<Rightarrow> (exn + string) \<times> state" where
  "citizen_assistant_page W st = (render_template W ''citizen_assistant.html'' [], st)"

definition document_eligibility :: "world \<Rightarrow> state \<Rightarrow> (exn + string) \<times> state" where
  "document_eligibility W st = (render_template W ''document_eligibility.html'' [], st)"

section \<open>API routes\<close>

text \<open>
  Every API handler returns \<open>Inr\<close> of its response, or \<open>Inl e\<close> when the exception \<open>e\<close>
  leaves the view function.  The argument \<open>req\<close> is what \<^verbatim>\<open>request.get_json()\<close> does when
  the handler calls it: it returns the parsed body or raises.
\<close>

definition error_body :: "exn \<Rightarrow> pyval" where
  "error_body e = PDict [(''success'', PBool False), (''error'', PStr (str_exn e))]"

definition message_body :: "string \<Rightarrow> pyval" where
  "message_body m = PDict [(''success'', PBool False), (''error'', PStr m)]"

text \<open>The \<^verbatim>\<open>EmergencyScenario(...)\<close> expression of lines 164 to 174, keyword by keyword.\<close>

definition make_scenario :: "world \<Rightarrow> pyval \<Rightarrow> datetime \<Rightarrow> exn + EmergencyScenario" where
  "make_scenario W data now =
     (case py_get data ''scenario_id''
             (PStr (''scenario_'' @ strftime W now ''%Y%m%d_%H%M%S'')) of
        Inl e \<Rightarrow> Inl e | Inr sid \<Rightarrow>
     (case py_getitem data ''incident_type'' of Inl e \<Rightarrow> Inl e | Inr itype_raw \<Rightarrow>
     (case EmergencyType W itype_raw of Inl e \<Rightarrow> Inl e | Inr itype \<Rightarrow>
     (case py_getitem data ''severity_level'' of Inl e \<Rightarrow> Inl e | Inr sev_raw \<Rightarrow>
     (case py_int W sev_raw of Inl e \<Rightarrow> Inl e | Inr sev_int \<Rightarrow>
     (case SeverityLevel W (PInt sev_int) of Inl e \<Rightarrow> Inl e | Inr sev \<Rightarrow>
     (case py_getitem data ''location'' of Inl e \<Rightarrow> Inl e | Inr loc \<Rightarrow>
     (case py_getitem data ''affected_area_radius'' of Inl e \<Rightarrow> Inl e | Inr radius_raw \<Rightarrow>
     (case py_float W radius_raw of Inl e \<Rightarrow> Inl e | Inr radius \<Rightarrow>
     (case py_getitem data ''estimated_population_affected'' of
        Inl e \<Rightarrow> Inl e | Inr pop_raw \<Rightarrow>
     (case py_int W pop_raw of Inl e \<Rightarrow> Inl e | Inr pop \<Rightarrow>
     (case py_get data ''duration_hours'' (PInt 24) of Inl e \<Rightarrow> Inl e | Inr hours_raw \<Rightarrow>
     (case py_int W hours_raw of Inl e \<Rightarrow> Inl e | Inr hours \<Rightarrow>
     (case py_get data ''description'' (PStr []) of Inl e \<Rightarrow> Inl e | Inr descr \<Rightarrow>
     (case py_get data ''special_conditions'' (PList []) of Inl e \<Rightarrow> Inl e | Inr special \<Rightarrow>
        Inr \<lparr>scenario_id = sid, incident_type = itype, severity_level = sev, location = loc,
             affected_area_radius = PFloat radius,
             estimated_population_affected = PInt pop,
             duration_hours = PInt hours, description = descr,
             special_conditions = special\<rparr>)))))))))))))))"

definition milestone_dict :: "world \<Rightarrow> Milestone \<Rightarrow> pyval" where
  "milestone_dict W m = PDict
     [(''milestone_name'', milestone_name m),
      (''estimated_time'', PStr (isoformat W (estimated_time m))),
      (''responsible_agency'', responsible_agency m),
      (''description'', milestone_description m)]"

definition plan_dict :: "world \<Rightarrow> ResponsePlan \<Rightarrow> pyval" where
  "plan_dict W response_plan = PDict
     [(''plan_id'', plan_id response_plan),
      (''scenario_id'', plan_scenario_id response_plan),
      (''lead_agency'', lead_agency response_plan),
      (''supporting_agencies'', supporting_agencies response_plan),
      (''activation_time'', PStr (isoformat W (activation_time response_plan))),
      (''estimated_duration'', PStr (py_str W (estimated_duration response_plan))),
      (''immediate_actions'', immediate_actions response_plan),
      (''resource_allocation'', PDict
         [(''personnel_deployment'',
             personnel_deployment (resource_allocation response_plan)),
          (''equipment_requirements'',
             equipment_requirements (resource_allocation response_plan)),
          (''facility_assignments'',
             facility_assignments (resource_allocation response_plan))]),
      (''timeline_milestones'',
         PList (map (milestone_dict W) (timeline_milestones response_plan))),
      (''communication_plan'', communication_plan response_plan)]"

definition scenario_dict :: "EmergencyScenario \<Rightarrow> pyval" where
  "scenario_dict scenario = PDict
     [(''scenario_id'', scenario_id scenario),
      (''incident_type'', incident_type scenario),
      (''severity_level'', severity_level scenario),
      (''location'', location scenario),
      (''affected_area_radius'', affected_area_radius scenario),
      (''estimated_population_affected'', estimated_population_affected scenario),
      (''duration_hours'', duration_hours scenario),
      (''description'', description scenario)]"

text \<open>The body of the \<^verbatim>\<open>try\<close> statement of \<^verbatim>\<open>api_create_scenario\<close> (lines 161 to 226).\<close>

definition api_create_scenario_try ::
  "world \<Rightarrow> exn + pyval \<Rightarrow> datetime \<Rightarrow> state \<Rightarrow> (exn + response) \<times> state" where
  "api_create_scenario_try W req now st =
     (case req of Inl e \<Rightarrow> (Inl e, st) | Inr data \<Rightarrow>
     (case make_scenario W data now of Inl e \<Rightarrow> (Inl e, st) | Inr scenario \<Rightarrow>
     (case get_coordinator W st of (Inl e, st1) \<Rightarrow> (Inl e, st1) | (Inr coord, st1) \<Rightarrow>
        (let (lp, st2) = new_event_loop st1;
             st3 = set_event_loop lp st2;
             (r, st4) = run_until_complete lp (Co_coordinate_response coord scenario)
                          (coordinate_response W coord scenario) st3;
             st5 = loop_close lp st4
         in (case r of Inl e \<Rightarrow> (Inl e, st5) | Inr response_plan \<Rightarrow>
              (jsonify (PDict
                 [(''success'', PBool True),
                  (''scenario'', scenario_dict scenario),
                  (''response_plan'', plan_dict W response_plan)]), st5))))))"

definition api_create_scenario ::
  "world \<Rightarrow> exn + pyval \<Rightarrow> datetime \<Rightarrow> state \<Rightarrow> (exn + response) \<times> state" where
  "api_create_scenario W req now st =
     (case api_create_scenario_try W req now st of
        (Inr resp, st') \<Rightarrow> (Inr resp, st')
      | (Inl e, st') \<Rightarrow> (jsonify_status (error_body e) 400, st'))"

text \<open>
  \<^verbatim>\<open>api_get_weather\<close>: \<open>lat\<close> and \<open>lon\<close> are the path segments, still strings.  The
  attribute \<^verbatim>\<open>coord.weather_service\<close> and the conversions are read inside the argument of
  \<^verbatim>\<open>run_until_complete(...)\<close>, in this order, so after the loop exists and inside the
  inner \<^verbatim>\<open>try\<close>.
\<close>

definition api_get_weather_try ::
  "world \<Rightarrow> string \<Rightarrow> string \<Rightarrow> state \<Rightarrow> (exn + response) \<times> state" where
  "api_get_weather_try W lat lon st =
     (case get_coordinator W st of (Inl e, st1) \<Rightarrow> (Inl e, st1) | (Inr coord, st1) \<Rightarrow>
        (let (lp, st2) = new_event_loop st1;
             st3 = set_event_loop lp st2;
             (r, st4) =
               (case weather_service W coord (trace st3) of
                  Some e \<Rightarrow> (Inl e, st3) | None \<Rightarrow>
               (case py_float W (PStr lat) of Inl e \<Rightarrow> (Inl e, st3) | Inr flat \<Rightarrow>
               (case py_float W (PStr lon) of Inl e \<Rightarrow> (Inl e, st3) | Inr flon \<Rightarrow>
                  run_until_complete lp (Co_get_current_conditions coord flat flon)
                    (get_current_conditions W coord flat flon) st3)));
             st5 = loop_close lp st4
         in (case r of Inl e \<Rightarrow> (Inl e, st5) | Inr weather_data \<Rightarrow>
              (jsonify (PDict
                 [(''success'', PBool True),
                  (''weather'', PDict
                     [(''temperature'', temperature weather_data),
                      (''humidity'', humidity weather_data),
                      (''wind_speed'', wind_speed weather_data),
                      (''wind_direction'', wind_direction weather_data),
                      (''pressure'', pressure weather_data),
                      (''visibility'', visibility weather_data),
                      (''conditions'', conditions weather_data)])]), st5))))"

definition api_get_weather ::
  "world \<Rightarrow> string \<Rightarrow> string \<Rightarrow> state \<Rightarrow> (exn + response) \<times> state" where
  "api_get_weather W lat lon st =
     (case api_get_weather_try W lat lon st of
        (Inr resp, st') \<Rightarrow> (Inr resp, st')
      | (Inl e, st') \<Rightarrow> (jsonify_status (error_body e) 400, st'))"


text \<open>The body of the \<^verbatim>\<open>try\<close> statement of \<^verbatim>\<open>api_policy_analyze\<close> (lines 314 to 350).\<close>

definition api_policy_analyze_try ::
  "world \<Rightarrow> exn + pyval \<Rightarrow> state \<Rightarrow> (exn + response) \<times> state" where
  "api_policy_analyze_try W req st =
     (let manager = get_agent_manager st in
      (case policy_checker manager of
         None \<Rightarrow> (jsonify_status (message_body ''Policy Compliance Checker not available'') 503, st)
       | Some checker \<Rightarrow>
      (case req of Inl e \<Rightarrow> (Inl e, st) | Inr data \<Rightarrow>
      (case py_get data ''document_path'' PNone of
         Inl e \<Rightarrow> (Inl e, st) | Inr document_path \<Rightarrow>
      (case py_get data ''policy_text'' PNone of
         Inl e \<Rightarrow> (Inl e, st) | Inr policy_text \<Rightarrow>
         if \<not> truthy document_path \<and> \<not> truthy policy_text
         then (jsonify_status
                 (message_body ''Either document_path or policy_text required'') 400, st)
         else
           (let (lp, st1) = new_event_loop st;
                st2 = set_event_loop lp st1;
                (r, st3) =
                  (if truthy document_path
                   then run_until_complete lp (Co_analyze_document checker document_path)
                          (analyze_document W checker document_path) st2
                   else run_until_complete lp (Co_analyze_policy_text checker policy_text)
                          (analyze_policy_text W checker policy_text) st2);
                st4 = loop_close lp st3
            in (case r of Inl e \<Rightarrow> (Inl e, st4) | Inr result \<Rightarrow>
                 (jsonify (PDict [(''success'', PBool True), (''analysis'', result)]),
                  st4))))))))"

definition api_policy_analyze ::
  "world \<Rightarrow> exn + pyval \<Rightarrow> state \<Rightarrow> (exn + response) \<times> state" where
  "api_policy_analyze W req st =
     (case api_policy_analyze_try W req st of
        (Inr resp, st') \<Rightarrow> (Inr resp, st')
      | (Inl e, st') \<Rightarrow> (jsonify_status (error_body e) 500, st'))"

text \<open>The body of the \<^verbatim>\<open>try\<close> statement of \<^verbatim>\<open>api_citizen_chat\<close> (lines 368 to 398).\<close>

definition api_citizen_chat_try ::
  "world \<Rightarrow> exn + pyval \<Rightarrow> state \<Rightarrow> (exn + response) \<times> state" where
  "api_citizen_chat_try W req st =
     (let manager = get_agent_manager st in
      (case citizen_assistant manager of
         None \<Rightarrow> (jsonify_status (message_body ''Virtual Citizen Assistant not available'') 503, st)
       | Some assistant \<Rightarrow>
      (case req of Inl e \<Rightarrow> (Inl e, st) | Inr data \<Rightarrow>
      (case py_get data ''message'' PNone of Inl e \<Rightarrow> (Inl e, st) | Inr message \<Rightarrow>
         if \<not> truthy message
         then (jsonify_status (message_body ''Message required'') 400, st)
         else
           (let (lp, st1) = new_event_loop st;
                st2 = set_event_loop lp st1;
                (r, st3) = run_until_complete lp (Co_chat assistant message)
                             (chat W assistant message) st2;
                st4 = loop_close lp st3
            in (case r of Inl e \<Rightarrow> (Inl e, st4) | Inr reply \<Rightarrow>
                 (jsonify (PDict [(''success'', PBool True), (''response'', reply)]),
                  st4)))))))"

definition api_citizen_chat ::
  "world \<Rightarrow> exn + pyval \<Rightarrow> state \<Rightarrow> (exn + response) \<times> state" where
  "api_citizen_chat W req st =
     (case api_citizen_chat_try W req st of
        (Inr resp, st') \<Rightarrow> (Inr resp, st')
      | (Inl e, st') \<Rightarrow> (jsonify_status (error_body e) 500, st'))"

text \<open>The body of the \<^verbatim>\<open>try\<close> statement of \<^verbatim>\<open>api_document_process\<close> (lines 416 to 450).\<close>

definition api_document_process_try ::
  "world \<Rightarrow> exn + pyval \<Rightarrow> state \<Rightarrow> (exn + response) \<times> state" where
  "api_document_process_try W req st =
     (let manager = get_agent_manager st in
      (case document_agent manager of
         None \<Rightarrow> (jsonify_status (message_body ''Document Eligibility Agent not available'') 503, st)
       | Some doc_agent \<Rightarrow>
      (case req of Inl e \<Rightarrow> (Inl e, st) | Inr data \<Rightarrow>
      (case py_get data ''document_type'' PNone of
         Inl e \<Rightarrow> (Inl e, st) | Inr document_type \<Rightarrow>
      (case py_get data ''document_content'' PNone of
         Inl e \<Rightarrow> (Inl e, st) | Inr document_content \<Rightarrow>
      (case py_get data ''applicant_info'' (PDict []) of
         Inl e \<Rightarrow> (Inl e, st) | Inr applicant_info \<Rightarrow>
         if \<not> truthy document_type \<or> \<not> truthy document_content
         then (jsonify_status (message_body ''Document type and content required'') 400, st)
         else
           (let (lp, st1) = new_event_loop st;
                st2 = set_event_loop lp st1;
                (r, st3) =
                  run_until_complete lp
                    (Co_process_document doc_agent document_type document_content applicant_info)
                    (process_document W doc_agent document_type document_content applicant_info)
                    st2;
                st4 = loop_close lp st3
            in (case r of Inl e \<Rightarrow> (Inl e, st4) | Inr result \<Rightarrow>
                 (jsonify (PDict [(''success'', PBool True), (''result'', result)]),
                  st4)))))))))"

definition api_document_process ::
  "world \<Rightarrow> exn + pyval \<Rightarrow> state \<Rightarrow> (exn + response) \<times> state" where
  "api_document_process W req st =
     (case api_document_process_try W req st of
        (Inr resp, st') \<Rightarrow> (Inr resp, st')
      | (Inl e, st') \<Rightarrow> (jsonify_status (error_body e) 500, st'))"

text \<open>
  \<^verbatim>\<open>api_agents_collaborate\<close>, lines 475 to 497: the emergency scenario, when the manager
  has a coordinator.  The scenario gets four keywords; its other attributes are the
  defaults of the class, or the constructor raises for want of them.  The result is
  \<^verbatim>\<open>scenario_result\<close>.
\<close>

definition collaborate_scenario ::
  "world \<Rightarrow> IntegratedAgentManager \<Rightarrow> pyval \<Rightarrow> state \<Rightarrow> (exn + pyval) \<times> state" where
  "collaborate_scenario W manager scenario_data st =
     (case coordinator manager of None \<Rightarrow> (Inr PNone, st) | Some coord \<Rightarrow>
     (case py_getitem scenario_data ''incident_type'' of
        Inl e \<Rightarrow> (Inl e, st) | Inr itype_raw \<Rightarrow>
     (case EmergencyType W itype_raw of Inl e \<Rightarrow> (Inl e, st) | Inr itype \<Rightarrow>
     (case py_getitem scenario_data ''severity_level'' of
        Inl e \<Rightarrow> (Inl e, st) | Inr sev_raw \<Rightarrow>
     (case SeverityLevel W sev_raw of Inl e \<Rightarrow> (Inl e, st) | Inr sev \<Rightarrow>
     (case py_getitem scenario_data ''location'' of Inl e \<Rightarrow> (Inl e, st) | Inr loc \<Rightarrow>
     (case py_getitem scenario_data ''description'' of Inl e \<Rightarrow> (Inl e, st) | Inr descr \<Rightarrow>
     (case EmergencyScenario_defaults W of Inl e \<Rightarrow> (Inl e, st) | Inr defaults \<Rightarrow>
        (let scenario = defaults\<lparr>incident_type := itype, severity_level := sev,
                                 location := loc, description := descr\<rparr>;
             (lp, st1) = new_event_loop st;
             st2 = set_event_loop lp st1;
             (r, st3) = run_until_complete lp (Co_coordinate_response coord scenario)
                          (coordinate_response W coord scenario) st2;
             st4 = loop_close lp st3
         in (case r of Inl e \<Rightarrow> (Inl e, st4) | Inr response_plan \<Rightarrow>
              (Inr (PDict
                 [(''plan_id'', plan_id response_plan),
                  (''lead_agency'', lead_agency response_plan),
                  (''immediate_actions'', immediate_actions response_plan)]), st4)))))))))))"

text \<open>The \<^verbatim>\<open>for policy in policy_documents\<close> loop of lines 506 to 510, on the loop \<open>lp\<close>.\<close>

fun analyze_policies ::
  "world \<Rightarrow> nat \<Rightarrow> agent \<Rightarrow> pyval list \<Rightarrow> pyval list \<Rightarrow> state \<Rightarrow> (exn + pyval list) \<times> state" where
  "analyze_policies W lp checker [] policy_results st = (Inr policy_results, st)"
| "analyze_policies W lp checker (policy # rest) policy_results st =
     (case run_until_complete lp (Co_analyze_policy_text checker policy)
             (analyze_policy_text W checker policy) st of
        (Inl e, st') \<Rightarrow> (Inl e, st')
      | (Inr result, st') \<Rightarrow>
          analyze_policies W lp checker rest (policy_results @ [result]) st')"

text \<open>Lines 499 to 512: the policy checks; the result is \<^verbatim>\<open>policy_results\<close>.\<close>

definition collaborate_policies ::
  "world \<Rightarrow> IntegratedAgentManager \<Rightarrow> pyval \<Rightarrow> state \<Rightarrow> (exn + pyval list) \<times> state" where
  "collaborate_policies W manager policy_documents st =
     (case policy_checker manager of None \<Rightarrow> (Inr [], st) | Some checker \<Rightarrow>
        if \<not> truthy policy_documents then (Inr [], st)
        else
          (let (lp, st1) = new_event_loop st;
               st2 = set_event_loop lp st1;
               (r, st3) =
                 (case py_iter policy_documents of
                    Inl e \<Rightarrow> (Inl e, st2)
                  | Inr policies \<Rightarrow> analyze_policies W lp checker policies [] st2);
               st4 = loop_close lp st3
           in (r, st4)))"

text \<open>The body of the \<^verbatim>\<open>try\<close> statement of \<^verbatim>\<open>api_agents_collaborate\<close> (lines 463 to 525).\<close>

definition api_agents_collaborate_try ::
  "world \<Rightarrow> exn + pyval \<Rightarrow> state \<Rightarrow> (exn + response) \<times> state" where
  "api_agents_collaborate_try W req st =
     (let manager = get_agent_manager st in
      (case req of Inl e \<Rightarrow> (Inl e, st) | Inr data \<Rightarrow>
      (case py_get data ''task_type'' PNone of Inl e \<Rightarrow> (Inl e, st) | Inr task_type \<Rightarrow>
      (case py_get data ''task_data'' (PDict []) of Inl e \<Rightarrow> (Inl e, st) | Inr task_data \<Rightarrow>
         if task_type = PStr ''emergency_policy_check''
         then
           (case py_get task_data ''scenario'' PNone of
              Inl e \<Rightarrow> (Inl e, st) | Inr scenario_data \<Rightarrow>
           (case py_get task_data ''policies'' (PList []) of
              Inl e \<Rightarrow> (Inl e, st) | Inr policy_documents \<Rightarrow>
           (case collaborate_scenario W manager scenario_data st of
              (Inl e, st1) \<Rightarrow> (Inl e, st1) | (Inr scenario_result, st1) \<Rightarrow>
           (case collaborate_policies W manager policy_documents st1 of
              (Inl e, st2) \<Rightarrow> (Inl e, st2) | (Inr policy_results, st2) \<Rightarrow>
              (jsonify (PDict
                 [(''success'', PBool True),
                  (''emergency_response'', scenario_result),
                  (''policy_compliance'', PList policy_results),
                  (''collaboration_summary'', PStr
                     ''Emergency response plan generated with policy compliance validation'')]),
               st2)))))
         else (jsonify_status
                 (message_body (''Unknown task type: '' @ py_str W task_type)) 400, st)))))"

definition api_agents_collaborate ::
  "world \<Rightarrow> exn + pyval \<Rightarrow> state \<Rightarrow> (exn + response) \<times> state" where
  "api_agents_collaborate W req st =
     (case api_agents_collaborate_try W req st of
        (Inr resp, st') \<Rightarrow> (Inr resp, st')
      | (Inl e, st') \<Rightarrow> (jsonify_status (error_body e) 500, st'))"

text \<open>\<^verbatim>\<open>api_agents_status\<close> has no \<^verbatim>\<open>try\<close> statement.\<close>

definition api_agents_status :: "state \<Rightarrow> (exn + response) \<times> state" where
  "api_agents_status st =
     (let manager = get_agent_manager st in
      (jsonify (PDict
         [(''emergency_response'', PDict
             [(''available'', PBool (coordinator manager \<noteq> None)),
              (''status'', PStr (if attr_truthy (coordinator manager)
                                 then ''active'' else ''unavailable''))]),
          (''policy_compliance'', PDict
             [(''available'', PBool (policy_checker manager \<noteq> None)),
              (''status'', PStr (if attr_truthy (policy_checker manager)
                                 then ''active'' else ''unavailable''))]),
          (''citizen_assistant'', PDict
             [(''available'', PBool (citizen_assistant manager \<noteq> None)),
              (''status'', PStr (if attr_truthy (citizen_assistant manager)
                                 then ''active'' else ''unavailable''))]),
          (''document_eligibility'', PDict
             [(''available'', PBool (document_agent manager \<noteq> None)),
              (''status'', PStr (if attr_truthy (document_agent manager)
                                 then ''active'' else ''unavailable''))]),
          (''system_status'',
             PStr (if initialized manager then ''operational'' else ''initializing''))]),
       st))"

section \<open>The routing table and the states the application can be in\<close>

text \<open>
  One constructor per \<^verbatim>\<open>@app.route\<close>, with what the request brings: the outcome of
  \<^verbatim>\<open>request.get_json()\<close>, the path segments, and for \<^verbatim>\<open>/api/scenarios\<close> the time
  \<^verbatim>\<open>datetime.now()\<close> returns.
\<close>

datatype request =
    Get_index
  | Get_dashboard
  | Get_create_scenario
  | Post_api_scenarios "exn + pyval" datetime
  | Get_api_weather string string
  | Get_scenarios
  | Get_plan string
  | Get_map
  | Get_reports
  | Get_agents
  | Get_policy_compliance
  | Post_api_policy_analyze "exn + pyval"
  | Get_citizen_assistant
  | Post_api_citizen_chat "exn + pyval"
  | Get_document_eligibility
  | Post_api_document_process "exn + pyval"
  | Post_api_agents_collaborate "exn + pyval"
  | Get_api_agents_status

text \<open>The state a request leaves behind.\<close>

fun serve :: "world \<Rightarrow> request \<Rightarrow> state \<Rightarrow> state" where
  "serve W Get_index st = snd (index W st)"
| "serve W Get_dashboard st = snd (dashboard W st)"
| "serve W Get_create_scenario st = snd (create_scenario W st)"
| "serve W (Post_api_scenarios req now) st = snd (api_create_scenario W req now st)"
| "serve W (Get_api_weather lat lon) st = snd (api_get_weather W lat lon st)"
| "serve W Get_scenarios st = snd (scenarios W st)"
| "serve W (Get_plan plan) st = snd (view_plan W plan st)"
| "serve W Get_map st = snd (map_view W st)"
| "serve W Get_reports st = snd (reports W st)"
| "serve W Get_agents st = snd (agents_hub W st)"
| "serve W Get_policy_compliance st = snd (policy_compliance W st)"
| "serve W (Post_api_policy_analyze req) st = snd (api_policy_analyze W req st)"
| "serve W Get_citizen_assistant st = snd (citizen_assistant_page W st)"
| "serve W (Post_api_citizen_chat req) st = snd (api_citizen_chat W req st)"
| "serve W Get_document_eligibility st = snd (document_eligibility W st)"
| "serve W (Post_api_document_process req) st = snd (api_document_process W req st)"
| "serve W (Post_api_agents_collaborate req) st = snd (api_agents_collaborate W req st)"
| "serve W Get_api_agents_status st = snd (api_agents_status st)"

text \<open>
  The states of a running application: the module is imported (by a WSGI server, which
  never runs \<^verbatim>\<open>initialize\<close>) or run as \<^verbatim>\<open>__main__\<close>, and then serves requests.
\<close>

inductive reachable :: "world \<Rightarrow> module_globals \<Rightarrow> state \<Rightarrow> bool" for W G where
  imported: "reachable W G initial_state"
| started: "reachable W G (main W G initial_state)"
| served: "reachable W G st \<Longrightarrow> reachable W G (serve W req st)"

section \<open>A concrete world\<close>

text \<open>
  A world to run the handlers in: it parses the strings \<^verbatim>\<open>3\<close> and \<^verbatim>\<open>1.5\<close> and no others,
  its enums accept every value, and its constructors and agent methods succeed.
\<close>

definition demo_scenario :: EmergencyScenario where
  "demo_scenario =
     \<lparr>scenario_id = PStr ''s1'', incident_type = PStr ''fire'', severity_level = PInt 3,
      location = PStr ''Albany'', affected_area_radius = PFloat (Finite 5 0),
      estimated_population_affected = PInt 1000, duration_hours = PInt 24,
      description = PStr [], special_conditions = PList []\<rparr>"

definition demo_plan :: ResponsePlan where
  "demo_plan =
     \<lparr>plan_id = PStr ''p1'', plan_scenario_id = PStr ''s1'', lead_agency = PStr ''FDNY'',
      supporting_agencies = PList [PStr ''NYPD''],
      activation_time = Datetime 2025 1 2 3 4 5 0,
      estimated_duration = PObject ''timedelta'',
      immediate_actions = PList [PStr ''evacuate''],
      resource_allocation =
        \<lparr>personnel_deployment = PDict [], equipment_requirements = PDict [],
         facility_assignments = PDict []\<rparr>,
      timeline_milestones =
        [\<lparr>milestone_name = PStr ''m1'', estimated_time = Datetime 2025 1 2 4 0 0 0,
          responsible_agency = PStr ''FDNY'', milestone_description = PStr ''first''\<rparr>],
      communication_plan = PDict []\<rparr>"

definition demo_weather :: WeatherData where
  "demo_weather =
     \<lparr>temperature = PInt 20, humidity = PInt 50, wind_speed = PInt 10,
      wind_direction = PStr ''N'', pressure = PInt 1013, visibility = PInt 10,
      conditions = PStr ''clear''\<rparr>"

definition demo_world :: world where
  "demo_world =
     \<lparr>int_of_str = (\<lambda>s. if s = ''3'' then Inr 3
                         else Inl (ValueError ''invalid literal for int() with base 10'')),
      int_of_float = (\<lambda>f. case f of Finite m e \<Rightarrow> Inr (if e = 0 then m else 0)
                           | _ \<Rightarrow> Inl (ValueError ''cannot convert float to integer'')),
      float_of_str = (\<lambda>s. if s = ''1.5'' then Inr (Finite 3 (- 1))
                           else Inl (ValueError ''could not convert string to float'')),
      float_of_int = (\<lambda>n. Inr (Finite n 0)),
      py_str = (\<lambda>v. case v of PStr s \<Rightarrow> s | _ \<Rightarrow> ''1 day''),
      strftime = (\<lambda>t f. ''20250102_030405''),
      isoformat = (\<lambda>t. ''2025-01-02T03:04:05''),
      EmergencyType = (\<lambda>v. Inr v),
      SeverityLevel = (\<lambda>v. Inr v),
      EmergencyType_values = [PStr ''fire''],
      SeverityLevel_values = [PInt 3],
      EmergencyScenario_defaults = Inr demo_scenario,
      render_template = (\<lambda>name ctx. Inr name),
      constructor = (\<lambda>c h. None),
      agent_initialize = (\<lambda>a h. Inr ()),
      coordinate_response = (\<lambda>a s h. Inr demo_plan),
      weather_service = (\<lambda>a h. None),
      get_current_conditions = (\<lambda>a x y h. Inr demo_weather),
      analyze_document = (\<lambda>a d h. Inr (PStr ''compliant'')),
      analyze_policy_text = (\<lambda>a t h. Inr (PStr ''compliant'')),
      chat = (\<lambda>a m h. Inr (PStr ''hello'')),
      process_document = (\<lambda>a t c i h. Inr (PStr ''eligible''))\<rparr>"


text \<open>A world in which the policy checker cannot be built and every agent method raises.\<close>

definition boom :: exn where
  "boom = OtherError ''RuntimeError'' ''agent failure''"

definition raising_world :: world where
  "raising_world =
     demo_world
       \<lparr>constructor := (\<lambda>c h. if c = PolicyComplianceChecker then Some boom else None),
        coordinate_response := (\<lambda>a s h. Inl boom),
        get_current_conditions := (\<lambda>a x y h. Inl boom),
        analyze_document := (\<lambda>a d h. Inl boom),
        analyze_policy_text := (\<lambda>a t h. Inl boom),
        chat := (\<lambda>a m h. Inl boom),
        process_document := (\<lambda>a t c i h. Inl boom)\<rparr>"

text \<open>The state after one lazy creation of the coordinator, and a state with all agents.\<close>

definition created_state :: state where
  "created_state =
     \<lparr>agent_manager = new_manager\<lparr>coordinator := Some (Agent EmergencyResponseCoordinator 0)\<rparr>,
      trace = [Construct EmergencyResponseCoordinator 0], next_id = 1\<rparr>"

definition full_state :: state where
  "full_state =
     \<lparr>agent_manager =
        \<lparr>coordinator = Some (Agent EmergencyResponseCoordinator 0),
         policy_checker = Some (Agent PolicyComplianceChecker 1),
         citizen_assistant = Some (Agent VirtualCitizenAssistant 2),
         document_agent = Some (Agent DocumentEligibilityAgent 3),
         initialized = True\<rparr>,
      trace = [], next_id = 4\<rparr>"



section \<open>Observations on responses and on the log\<close>

text \<open>Whether a call returned rather than raised.\<close>

definition returned :: "exn + 'a \<Rightarrow> bool" where
  "returned r = (case r of Inl e \<Rightarrow> False | Inr x \<Rightarrow> True)"



text \<open>The loops a log creates and does not close afterwards.\<close>

fun unclosed :: "event list \<Rightarrow> nat list" where
  "unclosed [] = []"
| "unclosed (New_event_loop n # evs) =
     (if Loop_close n \<in> set evs then unclosed evs else n # unclosed evs)"
| "unclosed (ev # evs) = unclosed evs"

text \<open>The loops a log creates, in order, and the number of coroutines it runs on a loop.\<close>

fun loops_created :: "event list \<Rightarrow> nat list" where
  "loops_created [] = []"
| "loops_created (New_event_loop n # evs) = n # loops_created evs"
| "loops_created (ev # evs) = loops_created evs"

fun runs_on :: "nat \<Rightarrow> event list \<Rightarrow> nat" where
  "runs_on n [] = 0"
| "runs_on n (Run_until_complete m co # evs) =
     (if m = n then Suc (runs_on n evs) else runs_on n evs)"
| "runs_on n (ev # evs) = runs_on n evs"

text \<open>For each loop created, in order, the number of \<^verbatim>\<open>run_until_complete\<close> calls on it.\<close>

definition loop_usage :: "event list \<Rightarrow> nat list" where
  "loop_usage evs = map (\<lambda>n. runs_on n evs) (loops_created evs)"

text \<open>
  The two ways \<^verbatim>\<open>api_agents_collaborate\<close> uses a loop: one coroutine of the coordinator,
  or one \<^verbatim>\<open>analyze_policy_text\<close> coroutine per policy.
\<close>

definition coordinator_session :: "nat \<Rightarrow> coroutine \<Rightarrow> event list" where
  "coordinator_session n co =
     [New_event_loop n, Set_event_loop n, Run_until_complete n co, Loop_close n]"

definition policy_runs :: "nat \<Rightarrow> agent \<Rightarrow> pyval list \<Rightarrow> event list" where
  "policy_runs lp checker ps =
     map (\<lambda>p. Run_until_complete lp (Co_analyze_policy_text checker p)) ps"

definition policy_session :: "nat \<Rightarrow> agent \<Rightarrow> pyval list \<Rightarrow> event list" where
  "policy_session n c ps =
     [New_event_loop n, Set_event_loop n] @ policy_runs n c ps @ [Loop_close n]"

text \<open>The policy documents a collaboration request asks to check.\<close>

definition requested_policies :: "exn + pyval \<Rightarrow> pyval list" where
  "requested_policies req =
     (case req of Inl e \<Rightarrow> [] | Inr data \<Rightarrow>
     (case py_get data ''task_data'' (PDict []) of Inl e \<Rightarrow> [] | Inr task_data \<Rightarrow>
     (case py_get task_data ''policies'' (PList []) of
        Inl e \<Rightarrow> [] | Inr policy_documents \<Rightarrow>
     (case py_iter policy_documents of Inl e \<Rightarrow> [] | Inr policies \<Rightarrow> policies))))"


text \<open>A chat request.\<close>

definition chat_request :: "exn + pyval" where
  "chat_request = Inr (PDict [(''message'', PStr ''hi'')])"


text \<open>
  What no request may change: the three optional agents and the \<^verbatim>\<open>initialized\<close> flag.
\<close>

definition optional_state ::
  "state \<Rightarrow> agent option \<times> agent option \<times> agent option \<times> bool" where
  "optional_state st =
     (policy_checker (agent_manager st), citizen_assistant (agent_manager st),
      document_agent (agent_manager st), initialized (agent_manager st))"

text \<open>
  An optional agent whose class is \<^verbatim>\<open>None\<close> or whose flag is \<^verbatim>\<open>False\<close> is absent from the
  manager.
\<close>

definition import_invariant :: "module_globals \<Rightarrow> state \<Rightarrow> bool" where
  "import_invariant G st =
     ((PolicyComplianceChecker_name G = None \<or> \<not> policy_checker_available G \<longrightarrow>
         policy_checker (agent_manager st) = None) \<and>
      (VirtualCitizenAssistant_name G = None \<or> \<not> citizen_assistant_available G \<longrightarrow>
         citizen_assistant (agent_manager st) = None) \<and>
      (DocumentEligibilityAgent_name G = None \<or> \<not> document_agent_available G \<longrightarrow>
         document_agent (agent_manager st) = None))"

text \<open>An import that fails.\<close>

definition import_error :: exn where
  "import_error = OtherError ''ModuleNotFoundError'' ''No module named main''"

section \<open>Lazy creation of the coordinator\<close>

text \<open>
  C3.  \<^verbatim>\<open>get_coordinator\<close> returns the stored coordinator and leaves the state alone when
  there is one; when there is none and the constructor does not raise, it constructs
  one coordinator, stores it and returns it.  Whenever it returns, the instance it
  returns is stored, and a second call returns the same instance without changing the
  state, so it constructs nothing.
\<close>

theorem get_coordinator_lazy:
  "(coordinator (agent_manager st) = Some a \<longrightarrow> get_coordinator W st = (Inr a, st)) \<and>
   (coordinator (agent_manager st) = None \<longrightarrow>
      constructor W EmergencyResponseCoordinator (trace st) = None \<longrightarrow>
      fst (get_coordinator W st) = Inr (Agent EmergencyResponseCoordinator (next_id st)) \<and>
      coordinator (agent_manager (snd (get_coordinator W st))) =
        Some (Agent EmergencyResponseCoordinator (next_id st)) \<and>
      events_since st (snd (get_coordinator W st)) =
        [Construct EmergencyResponseCoordinator (next_id st)]) \<and>
   (get_coordinator W st = (Inr a, st') \<longrightarrow>
      coordinator (agent_manager st') = Some a \<and> get_coordinator W st' = (Inr a, st'))"
  by (auto simp: get_coordinator_def construct_def log_event_def events_since_def Let_def
           split: option.splits)

theorem get_coordinator_lazy_witness:
  "get_coordinator demo_world initial_state =
     (Inr (Agent EmergencyResponseCoordinator 0), created_state) \<and>
   get_coordinator demo_world created_state =
     (Inr (Agent EmergencyResponseCoordinator 0), created_state) \<and>
   events_since initial_state created_state = [Construct EmergencyResponseCoordinator 0]"
  using get_coordinator_lazy
    [of initial_state "Agent EmergencyResponseCoordinator 0" demo_world created_state]
  by (simp add: get_coordinator_def construct_def log_event_def events_since_def Let_def
        initial_state_def new_manager_def created_state_def demo_world_def)


section \<open>Start-up: the two stages of \<^verbatim>\<open>initialize\<close>\<close>

lemma start_agent_keeps:
  "start_agent W c store st = (r, st') \<Longrightarrow>
   \<forall>a m. f (store a m) = f m \<Longrightarrow>
   f (agent_manager st') = f (agent_manager st)"
  by (auto simp: start_agent_def construct_def await_def log_event_def Let_def
           split: option.splits sum.splits prod.splits)

lemma initialize_all_Inl:
  "initialize_all W G st = (Inl e, st') \<Longrightarrow>
   initialized (agent_manager st') = initialized (agent_manager st)"
  unfolding initialize_all_def
  by (auto split: sum.splits prod.splits if_splits
           dest!: start_agent_keeps [where f = initialized])

lemma initialize_all_Inr:
  "initialize_all W G st = (Inr b, st') \<Longrightarrow> b \<and> initialized (agent_manager st')"
  by (auto simp: initialize_all_def set_initialized_def
           split: sum.splits prod.splits if_splits)

lemma initialize_fallback_Inr:
  "initialize_fallback W st = (Inr b, st') \<Longrightarrow> b \<and> initialized (agent_manager st')"
  by (auto simp: initialize_fallback_def set_initialized_def split: sum.splits prod.splits)

lemma initialize_fallback_Inl:
  "initialize_fallback W st = (Inl e, st') \<Longrightarrow>
   initialized (agent_manager st') = initialized (agent_manager st)"
  by (auto simp: initialize_fallback_def split: sum.splits prod.splits
           dest!: start_agent_keeps [where f = initialized])

lemma initialize_fallback_events:
  "initialize_fallback W st = (r, st') \<Longrightarrow>
   set (events_since st st') \<subseteq>
     {Construct EmergencyResponseCoordinator (next_id st),
      Await (Co_initialize (Agent EmergencyResponseCoordinator (next_id st)))}"
  by (auto simp: initialize_fallback_def start_agent_def construct_def await_def log_event_def
        set_initialized_def events_since_def Let_def
           split: option.splits sum.splits prod.splits)

text \<open>
  C10.  Let the outer \<^verbatim>\<open>try\<close> block of \<^verbatim>\<open>initialize\<close> end with \<open>r1\<close> in state \<open>st1\<close>, and let
  the fallback block, started in \<open>st1\<close>, end with \<open>r2\<close> in state \<open>st2\<close>.  Then
  \<^verbatim>\<open>initialize\<close> returns \<^verbatim>\<open>True\<close> exactly when one of the two blocks completes without an
  exception.  When the outer block completes, the fallback is not run.  When it
  raises, the fallback runs, and the only calls it makes are the constructor of
  \<^verbatim>\<open>EmergencyResponseCoordinator\<close> and the \<^verbatim>\<open>initialize\<close> of the new coordinator.
  Afterwards \<^verbatim>\<open>self.initialized\<close> is true when \<^verbatim>\<open>True\<close> is returned, and is what it was
  before the call (\<^verbatim>\<open>False\<close> for the new manager) when \<^verbatim>\<open>False\<close> is returned.
\<close>

theorem initialize_two_stage:
  assumes "initialize_all W G st = (r1, st1)"
    and "initialize_fallback W st1 = (r2, st2)"
    and "initialize W G st = (b, st')"
  shows "b = (returned r1 \<or> returned r2) \<and>
         (returned r1 \<longrightarrow> st' = st1) \<and>
         (\<not> returned r1 \<longrightarrow>
            st' = st2 \<and>
            set (events_since st1 st2) \<subseteq>
              {Construct EmergencyResponseCoordinator (next_id st1),
               Await (Co_initialize (Agent EmergencyResponseCoordinator (next_id st1)))}) \<and>
         initialized (agent_manager st') = (b \<or> initialized (agent_manager st))"
proof (cases r1)
  case (Inr b1)
  with assms show ?thesis
    by (auto simp: initialize_def returned_def dest: initialize_all_Inr)
next
  case r1: (Inl e1)
  note ev = initialize_fallback_events [OF assms(2)]
  show ?thesis
  proof (cases r2)
    case (Inr b2)
    with r1 assms ev show ?thesis
      by (auto simp: initialize_def returned_def dest: initialize_fallback_Inr)
  next
    case (Inl e2)
    with r1 assms ev show ?thesis
      by (auto simp: initialize_def returned_def
               dest: initialize_all_Inl initialize_fallback_Inl)
  qed
qed

theorem initialize_two_stage_witness:
  "\<not> returned (fst (initialize_all raising_world (import_agents None None None) initial_state)) \<and>
   returned (fst (initialize_fallback raising_world
      (snd (initialize_all raising_world (import_agents None None None) initial_state)))) \<and>
   fst (initialize raising_world (import_agents None None None) initial_state) \<and>
   initialized (agent_manager
      (snd (initialize raising_world (import_agents None None None) initial_state))) \<and>
   events_since
      (snd (initialize_all raising_world (import_agents None None None) initial_state))
      (snd (initialize raising_world (import_agents None None None) initial_state)) =
     [Construct EmergencyResponseCoordinator 2,
      Await (Co_initialize (Agent EmergencyResponseCoordinator 2))]"
  using initialize_two_stage
    [of raising_world "import_agents None None None" initial_state
        "fst (initialize_all raising_world (import_agents None None None) initial_state)"
        "snd (initialize_all raising_world (import_agents None None None) initial_state)"
        "fst (initialize_fallback raising_world
           (snd (initialize_all raising_world (import_agents None None None) initial_state)))"
        "snd (initialize_fallback raising_world
           (snd (initialize_all raising_world (import_agents None None None) initial_state)))"
        "fst (initialize raising_world (import_agents None None None) initial_state)"
        "snd (initialize raising_world (import_agents None None None) initial_state)"]
  by (simp add: initialize_def initialize_all_def initialize_fallback_def start_agent_def
        construct_def await_def log_event_def set_initialized_def events_since_def Let_def
        returned_def import_agents_def initial_state_def new_manager_def raising_world_def
        demo_world_def boom_def)


section \<open>Page routes and the status report\<close>

text \<open>
  C7.  Each of the eleven page routes returns what \<^verbatim>\<open>render_template\<close> returns and leaves
  the whole state as it was: the manager's \<^verbatim>\<open>coordinator\<close>, \<^verbatim>\<open>policy_checker\<close>,
  \<^verbatim>\<open>citizen_assistant\<close>, \<^verbatim>\<open>document_agent\<close> and \<^verbatim>\<open>initialized\<close> keep their values, and no
  constructor, event loop or agent method is called.
\<close>

theorem page_routes_frame:
  "snd (index W st) = st \<and>
   snd (dashboard W st) = st \<and>
   snd (create_scenario W st) = st \<and>
   snd (scenarios W st) = st \<and>
   snd (view_plan W plan st) = st \<and>
   snd (map_view W st) = st \<and>
   snd (reports W st) = st \<and>
   snd (policy_compliance W st) = st \<and>
   snd (citizen_assistant_page W st) = st \<and>
   snd (document_eligibility W st) = st \<and>
   snd (agents_hub W st) = st \<and>
   fst (index W st) = render_template W ''index.html'' [] \<and>
   fst (dashboard W st) = render_template W ''dashboard.html'' [] \<and>
   fst (scenarios W st) = render_template W ''scenarios.html'' [] \<and>
   fst (view_plan W plan st) = render_template W ''plan_detail.html'' [(''plan_id'', PStr plan)] \<and>
   fst (map_view W st) = render_template W ''map.html'' [] \<and>
   fst (reports W st) = render_template W ''reports.html'' [] \<and>
   fst (policy_compliance W st) = render_template W ''policy_compliance.html'' [] \<and>
   fst (citizen_assistant_page W st) = render_template W ''citizen_assistant.html'' [] \<and>
   fst (document_eligibility W st) = render_template W ''document_eligibility.html'' [] \<and>
   fst (create_scenario W st) =
     render_template W ''create_scenario.html''
       [(''emergency_types'', PList (EmergencyType_values W)),
        (''severity_levels'', PList (SeverityLevel_values W))] \<and>
   fst (agents_hub W st) =
     render_template W ''agents_hub.html''
       [(''agent_status'', PDict
           [(''emergency_response'', PBool (coordinator (agent_manager st) \<noteq> None)),
            (''policy_compliance'', PBool (policy_checker (agent_manager st) \<noteq> None)),
            (''citizen_assistant'', PBool (citizen_assistant (agent_manager st) \<noteq> None)),
            (''document_eligibility'', PBool (document_agent (agent_manager st) \<noteq> None))])]"
  by (simp add: index_def dashboard_def create_scenario_def scenarios_def view_plan_def
        map_view_def reports_def policy_compliance_def citizen_assistant_page_def
        document_eligibility_def agents_hub_def get_agent_manager_def Let_def)

theorem page_routes_frame_witness:
  "snd (agents_hub demo_world full_state) = full_state \<and>
   agent_manager (snd (create_scenario demo_world full_state)) = agent_manager full_state \<and>
   fst (index demo_world full_state) = Inr ''index.html''"
  using page_routes_frame [of demo_world full_state]
  by (simp add: demo_world_def)





section \<open>Exceptions inside the API handlers\<close>

lemma serializable_error_body [simp]: "serializable (error_body e)"
  by (simp add: error_body_def)

lemma jsonify_status_error_body [simp]:
  "jsonify_status (error_body e) code = Inr (Response (error_body e) code)"
  by (simp add: jsonify_status_def jsonify_def)




section \<open>The weather endpoint\<close>

lemma get_coordinator_trace:
  "get_coordinator W st = (r, st') \<Longrightarrow>
     (trace st' = trace st \<and> next_id st' = next_id st) \<or>
     (trace st' = trace st @ [Construct EmergencyResponseCoordinator (next_id st)] \<and>
      next_id st' = Suc (next_id st))"
  by (auto simp: get_coordinator_def construct_def log_event_def Let_def
           split: option.splits)





section \<open>The scenario endpoint\<close>







section \<open>What the optional agents depend on\<close>

lemma snd_api_handlers:
  "snd (api_create_scenario W req now st) = snd (api_create_scenario_try W req now st)"
  "snd (api_get_weather W lat lon st) = snd (api_get_weather_try W lat lon st)"
  "snd (api_policy_analyze W req st) = snd (api_policy_analyze_try W req st)"
  "snd (api_citizen_chat W req st) = snd (api_citizen_chat_try W req st)"
  "snd (api_document_process W req st) = snd (api_document_process_try W req st)"
  "snd (api_agents_collaborate W req st) = snd (api_agents_collaborate_try W req st)"
  by (simp_all add: api_create_scenario_def api_get_weather_def api_policy_analyze_def
        api_citizen_chat_def api_document_process_def api_agents_collaborate_def
      split: prod.splits sum.splits)

lemma optional_state_simps [simp]:
  "optional_state (log_event ev st) = optional_state st"
  "optional_state (set_event_loop lp st) = optional_state st"
  "optional_state (loop_close lp st) = optional_state st"
  "optional_state (snd (new_event_loop st)) = optional_state st"
  "optional_state (snd (run_until_complete lp co out st)) = optional_state st"
  "optional_state (st\<lparr>next_id := n\<rparr>) = optional_state st"
  "optional_state (st\<lparr>trace := t\<rparr>) = optional_state st"
  by (simp_all add: optional_state_def log_event_def set_event_loop_def loop_close_def
        new_event_loop_def run_until_complete_def)

lemma get_coordinator_optional:
  "optional_state (snd (get_coordinator W st)) = optional_state st"
  by (auto simp: get_coordinator_def construct_def optional_state_def log_event_def Let_def
      split: option.splits)

lemma analyze_policies_optional:
  "optional_state (snd (analyze_policies W lp c ps acc st)) = optional_state st"
  by (induction ps arbitrary: acc st)
     (auto simp: run_until_complete_def split: sum.splits)


lemma api_create_scenario_optional:
  "optional_state (snd (api_create_scenario W req now st)) = optional_state st"
  using get_coordinator_optional [of W st]
  by (auto simp: snd_api_handlers api_create_scenario_try_def Let_def new_event_loop_def
        run_until_complete_def
      split: sum.splits prod.splits)

lemma api_get_weather_optional:
  "optional_state (snd (api_get_weather W lat lon st)) = optional_state st"
  using get_coordinator_optional [of W st]
  by (auto simp: snd_api_handlers api_get_weather_try_def Let_def new_event_loop_def
        run_until_complete_def
      split: sum.splits prod.splits option.splits)

lemma api_policy_analyze_optional:
  "optional_state (snd (api_policy_analyze W req st)) = optional_state st"
  by (auto simp: snd_api_handlers api_policy_analyze_try_def Let_def new_event_loop_def
        run_until_complete_def
      split: sum.splits prod.splits option.splits)

lemma api_citizen_chat_optional:
  "optional_state (snd (api_citizen_chat W req st)) = optional_state st"
  by (auto simp: snd_api_handlers api_citizen_chat_try_def Let_def new_event_loop_def
        run_until_complete_def
      split: sum.splits prod.splits option.splits)

lemma api_document_process_optional:
  "optional_state (snd (api_document_process W req st)) = optional_state st"
  by (auto simp: snd_api_handlers api_document_process_try_def Let_def new_event_loop_def
        run_until_complete_def
      split: sum.splits prod.splits option.splits)


lemma analyze_policies_optional':
  "analyze_policies W lp c ps acc st = (r, st') \<Longrightarrow> optional_state st' = optional_state st"
  using analyze_policies_optional [of W lp c ps acc st] by simp

lemma collaborate_scenario_optional:
  "collaborate_scenario W m sd st = (r, st') \<Longrightarrow> optional_state st' = optional_state st"
  by (auto simp: collaborate_scenario_def Let_def new_event_loop_def run_until_complete_def
      split: sum.splits prod.splits option.splits)

lemma collaborate_policies_optional:
  "collaborate_policies W m pd st = (r, st') \<Longrightarrow> optional_state st' = optional_state st"
  by (auto simp: collaborate_policies_def Let_def new_event_loop_def
      split: sum.splits prod.splits option.splits if_splits
      dest!: analyze_policies_optional')

lemma api_agents_collaborate_optional:
  "optional_state (snd (api_agents_collaborate W req st)) = optional_state st"
  by (auto simp: snd_api_handlers api_agents_collaborate_try_def Let_def
      split: sum.splits prod.splits
      dest!: collaborate_scenario_optional collaborate_policies_optional)

lemma serve_optional: "optional_state (serve W req st) = optional_state st"
  by (cases req)
     (simp_all add: api_create_scenario_optional api_get_weather_optional
        api_policy_analyze_optional api_citizen_chat_optional api_document_process_optional
        api_agents_collaborate_optional index_def dashboard_def create_scenario_def
        scenarios_def view_plan_def map_view_def reports_def agents_hub_def
        policy_compliance_def citizen_assistant_page_def document_eligibility_def
        api_agents_status_def Let_def)

lemma initialize_all_keeps_policy:
  "initialize_all W G st = (r, st') \<Longrightarrow>
   PolicyComplianceChecker_name G = None \<or> \<not> policy_checker_available G \<Longrightarrow>
   policy_checker (agent_manager st') = policy_checker (agent_manager st)"
  unfolding initialize_all_def
  by (auto split: sum.splits prod.splits if_splits simp: set_initialized_def
           dest!: start_agent_keeps [where f = policy_checker])

lemma initialize_all_keeps_citizen:
  "initialize_all W G st = (r, st') \<Longrightarrow>
   VirtualCitizenAssistant_name G = None \<or> \<not> citizen_assistant_available G \<Longrightarrow>
   citizen_assistant (agent_manager st') = citizen_assistant (agent_manager st)"
  unfolding initialize_all_def
  by (auto split: sum.splits prod.splits if_splits simp: set_initialized_def
           dest!: start_agent_keeps [where f = citizen_assistant])

lemma initialize_all_keeps_document:
  "initialize_all W G st = (r, st') \<Longrightarrow>
   DocumentEligibilityAgent_name G = None \<or> \<not> document_agent_available G \<Longrightarrow>
   document_agent (agent_manager st') = document_agent (agent_manager st)"
  unfolding initialize_all_def
  by (auto split: sum.splits prod.splits if_splits simp: set_initialized_def
           dest!: start_agent_keeps [where f = document_agent])

lemma initialize_fallback_keeps:
  "initialize_fallback W st = (r, st') \<Longrightarrow>
   policy_checker (agent_manager st') = policy_checker (agent_manager st) \<and>
   citizen_assistant (agent_manager st') = citizen_assistant (agent_manager st) \<and>
   document_agent (agent_manager st') = document_agent (agent_manager st)"
  unfolding initialize_fallback_def
  by (auto split: sum.splits prod.splits simp: set_initialized_def
           dest: start_agent_keeps [where f = policy_checker]
                 start_agent_keeps [where f = citizen_assistant]
                 start_agent_keeps [where f = document_agent])

lemma initialize_invariant:
  assumes "import_invariant G st"
  shows "import_invariant G (snd (initialize W G st))"
proof -
  obtain r1 st1 where 1: "initialize_all W G st = (r1, st1)"
    by (cases "initialize_all W G st")
  obtain r2 st2 where 2: "initialize_fallback W st1 = (r2, st2)"
    by (cases "initialize_fallback W st1")
  have i1: "import_invariant G st1"
    using assms initialize_all_keeps_policy [OF 1] initialize_all_keeps_citizen [OF 1]
      initialize_all_keeps_document [OF 1]
    by (auto simp: import_invariant_def)
  have i2: "import_invariant G st2"
    using i1 initialize_fallback_keeps [OF 2]
    by (auto simp: import_invariant_def)
  from 1 2 i1 i2 show ?thesis
    by (auto simp: initialize_def split: sum.splits)
qed

lemma import_invariant_cong:
  "agent_manager st' = agent_manager st \<Longrightarrow> import_invariant G st' = import_invariant G st"
  by (simp add: import_invariant_def)

lemma main_unfold:
  "main W G st =
     loop_close (next_id st)
       (snd (initialize W G
          (log_event (Run_until_complete (next_id st) Co_manager_initialize)
             (set_event_loop (next_id st) (snd (new_event_loop st))))))"
  by (simp add: main_def new_event_loop_def Let_def split: prod.splits)

lemma main_invariant: "import_invariant G (main W G initial_state)"
proof -
  let ?st2 = "log_event (Run_until_complete (next_id initial_state) Co_manager_initialize)
     (set_event_loop (next_id initial_state) (snd (new_event_loop initial_state)))"
  have "agent_manager ?st2 = new_manager"
    by (simp add: initial_state_def log_event_def set_event_loop_def new_event_loop_def)
  then have "import_invariant G ?st2"
    by (simp add: import_invariant_def new_manager_def)
  then have "import_invariant G (snd (initialize W G ?st2))"
    by (rule initialize_invariant)
  moreover have "agent_manager (main W G initial_state) =
      agent_manager (snd (initialize W G ?st2))"
    by (simp add: main_unfold loop_close_def log_event_def)
  ultimately show ?thesis
    using import_invariant_cong [of "main W G initial_state" "snd (initialize W G ?st2)" G]
    by simp
qed

lemma reachable_invariant: "reachable W G st \<Longrightarrow> import_invariant G st"
proof (induction rule: reachable.induct)
  case imported
  show ?case by (simp add: import_invariant_def initial_state_def new_manager_def)
next
  case started
  show ?case by (rule main_invariant)
next
  case (served st req)
  with serve_optional [of W req st] show ?case
    by (simp add: import_invariant_def optional_state_def)
qed


lemma message_body_response [simp]:
  "jsonify_status (message_body m) code = Inr (Response (message_body m) code)"
  by (simp add: jsonify_status_def jsonify_def message_body_def)

text \<open>
  C4.  Let the three guarded imports end as \<open>policy_import\<close>, \<open>citizen_import\<close> and
  \<open>document_import\<close> say, and let the application be in any state it can reach.  If the
  import of an optional agent raised, its class name is bound to \<^verbatim>\<open>None\<close>, its flag is
  \<^verbatim>\<open>False\<close>, and the endpoint of that agent answers 503 with \<^verbatim>\<open>success\<close> false and an
  \<^verbatim>\<open>error\<close> text naming the agent, leaving the state, and with it the log of calls,
  exactly as it was.
\<close>

theorem optional_import_fallback:
  assumes "reachable W (import_agents policy_import citizen_import document_import) st"
  shows
    "(policy_import \<noteq> None \<longrightarrow>
        PolicyComplianceChecker_name
          (import_agents policy_import citizen_import document_import) = None \<and>
        \<not> policy_checker_available
          (import_agents policy_import citizen_import document_import) \<and>
        api_policy_analyze W req st =
          (Inr (Response (PDict
             [(''success'', PBool False),
              (''error'', PStr ''Policy Compliance Checker not available'')]) 503), st)) \<and>
     (citizen_import \<noteq> None \<longrightarrow>
        VirtualCitizenAssistant_name
          (import_agents policy_import citizen_import document_import) = None \<and>
        \<not> citizen_assistant_available
          (import_agents policy_import citizen_import document_import) \<and>
        api_citizen_chat W req st =
          (Inr (Response (PDict
             [(''success'', PBool False),
              (''error'', PStr ''Virtual Citizen Assistant not available'')]) 503), st)) \<and>
     (document_import \<noteq> None \<longrightarrow>
        DocumentEligibilityAgent_name
          (import_agents policy_import citizen_import document_import) = None \<and>
        \<not> document_agent_available
          (import_agents policy_import citizen_import document_import) \<and>
        api_document_process W req st =
          (Inr (Response (PDict
             [(''success'', PBool False),
              (''error'', PStr ''Document Eligibility Agent not available'')]) 503), st))"
proof -
  note inv = reachable_invariant [OF assms, unfolded import_invariant_def]
  have p: "policy_import \<noteq> None \<Longrightarrow> policy_checker (agent_manager st) = None"
    using inv by (auto simp: import_agents_def)
  have c: "citizen_import \<noteq> None \<Longrightarrow> citizen_assistant (agent_manager st) = None"
    using inv by (auto simp: import_agents_def)
  have d: "document_import \<noteq> None \<Longrightarrow> document_agent (agent_manager st) = None"
    using inv by (auto simp: import_agents_def)
  show ?thesis
    using p c d
    by (auto simp: import_agents_def api_policy_analyze_def api_policy_analyze_try_def
          api_citizen_chat_def api_citizen_chat_try_def api_document_process_def
          api_document_process_try_def get_agent_manager_def
          message_body_def [symmetric])
qed

theorem optional_import_fallback_witness:
  "policy_checker (agent_manager
      (main demo_world (import_agents (Some import_error) None None) initial_state)) = None \<and>
   citizen_assistant (agent_manager
      (main demo_world (import_agents (Some import_error) None None) initial_state)) =
     Some (Agent VirtualCitizenAssistant 2) \<and>
   api_policy_analyze demo_world (Inr (PDict [(''policy_text'', PStr ''policy A'')]))
      (main demo_world (import_agents (Some import_error) None None) initial_state) =
     (Inr (Response (PDict
        [(''success'', PBool False),
         (''error'', PStr ''Policy Compliance Checker not available'')]) 503),
      main demo_world (import_agents (Some import_error) None None) initial_state)"
  using optional_import_fallback
    [OF reachable.started [of demo_world "import_agents (Some import_error) None None"],
     of "Inr (PDict [(''policy_text'', PStr ''policy A'')])"]
  by (simp add: main_unfold initialize_def initialize_all_def start_agent_def construct_def
        await_def log_event_def set_initialized_def new_event_loop_def set_event_loop_def
        loop_close_def import_agents_def initial_state_def new_manager_def demo_world_def
        Let_def)


section \<open>Event loops\<close>

lemmas loop_defs = events_since_def new_event_loop_def set_event_loop_def
  run_until_complete_def loop_close_def log_event_def Let_def loop_usage_def

lemma api_create_scenario_try_loops:
  "unclosed (events_since st (snd (api_create_scenario_try W req now st))) = [] \<and>
   loop_usage (events_since st (snd (api_create_scenario_try W req now st))) \<in> {[], [1]}"
  by (auto simp: api_create_scenario_try_def loop_defs
        split: sum.splits prod.splits dest!: get_coordinator_trace)

lemma api_get_weather_try_loops:
  "unclosed (events_since st (snd (api_get_weather_try W lat lon st))) = [] \<and>
   loop_usage (events_since st (snd (api_get_weather_try W lat lon st))) \<in> {[], [0], [1]} \<and>
   ((\<forall>a h. weather_service W a h = None) \<and>
    returned (py_float W (PStr lat)) \<and> returned (py_float W (PStr lon)) \<longrightarrow>
      loop_usage (events_since st (snd (api_get_weather_try W lat lon st))) \<in> {[], [1]})"
  by (auto simp: api_get_weather_try_def loop_defs returned_def
        split: sum.splits prod.splits option.splits dest!: get_coordinator_trace)

lemma api_policy_analyze_try_loops:
  "unclosed (events_since st (snd (api_policy_analyze_try W req st))) = [] \<and>
   loop_usage (events_since st (snd (api_policy_analyze_try W req st))) \<in> {[], [1]}"
  by (auto simp: api_policy_analyze_try_def loop_defs get_agent_manager_def
        split: sum.splits prod.splits option.splits)

lemma api_citizen_chat_try_loops:
  "unclosed (events_since st (snd (api_citizen_chat_try W req st))) = [] \<and>
   loop_usage (events_since st (snd (api_citizen_chat_try W req st))) \<in> {[], [1]}"
  by (auto simp: api_citizen_chat_try_def loop_defs get_agent_manager_def
        split: sum.splits prod.splits option.splits)

lemma api_document_process_try_loops:
  "unclosed (events_since st (snd (api_document_process_try W req st))) = [] \<and>
   loop_usage (events_since st (snd (api_document_process_try W req st))) \<in> {[], [1]}"
  by (auto simp: api_document_process_try_def loop_defs get_agent_manager_def
        split: sum.splits prod.splits option.splits)

text \<open>The \<^verbatim>\<open>for\<close> loop logs one run per policy, up to the first that raises.\<close>

lemma analyze_policies_trace:
  "\<exists>k\<le>length ps.
     trace (snd (analyze_policies W lp c ps acc st)) = trace st @ policy_runs lp c (take k ps)"
proof (induction ps arbitrary: acc st)
  case Nil
  then show ?case by (simp add: policy_runs_def)
next
  case (Cons p ps)
  let ?st1 = "log_event (Run_until_complete lp (Co_analyze_policy_text c p)) st"
  show ?case
  proof (cases "analyze_policy_text W c p (trace st)")
    case (Inl e)
    then have "snd (analyze_policies W lp c (p # ps) acc st) = ?st1"
      by (simp add: run_until_complete_def)
    then have "trace (snd (analyze_policies W lp c (p # ps) acc st)) =
        trace st @ policy_runs lp c (take 1 (p # ps))"
      by (simp add: policy_runs_def log_event_def)
    then show ?thesis by (intro exI [of _ 1]) simp
  next
    case (Inr res)
    then have eq: "analyze_policies W lp c (p # ps) acc st =
        analyze_policies W lp c ps (acc @ [res]) ?st1"
      by (simp add: run_until_complete_def)
    from Cons.IH [of "acc @ [res]" ?st1] obtain k where k: "k \<le> length ps"
      "trace (snd (analyze_policies W lp c ps (acc @ [res]) ?st1)) =
         trace ?st1 @ policy_runs lp c (take k ps)"
      by blast
    from k(2) have "trace (snd (analyze_policies W lp c (p # ps) acc st)) =
        trace st @ policy_runs lp c (take (Suc k) (p # ps))"
      unfolding eq by (simp add: policy_runs_def log_event_def)
    with k(1) show ?thesis by (intro exI [of _ "Suc k"]) simp
  qed
qed

lemma unclosed_policy_runs [simp]: "unclosed (policy_runs lp c ps @ evs) = unclosed evs"
  by (induction ps) (simp_all add: policy_runs_def)

lemma loops_created_policy_runs [simp]:
  "loops_created (policy_runs lp c ps @ evs) = loops_created evs"
  by (induction ps) (simp_all add: policy_runs_def)

lemma runs_on_policy_runs [simp]:
  "runs_on n (policy_runs lp c ps @ evs) = (if lp = n then length ps else 0) + runs_on n evs"
  by (induction ps) (auto simp: policy_runs_def)

lemma close_notin_policy_runs [simp]: "Loop_close n \<notin> set (policy_runs lp c ps)"
  by (auto simp: policy_runs_def)

lemma collaborate_scenario_trace:
  "collaborate_scenario W m sd st = (r, st') \<Longrightarrow>
     (trace st' = trace st \<and> next_id st' = next_id st) \<or>
     (\<exists>co. trace st' = trace st @ coordinator_session (next_id st) co \<and>
           next_id st' = Suc (next_id st))"
  by (auto simp: collaborate_scenario_def new_event_loop_def set_event_loop_def
        run_until_complete_def loop_close_def log_event_def Let_def coordinator_session_def
        split: sum.splits prod.splits option.splits)

lemma collaborate_policies_trace:
  assumes a: "collaborate_policies W m pd st = (r, st')"
  shows "trace st' = trace st \<or>
     (\<exists>c k. k \<le> length (case py_iter pd of Inl e \<Rightarrow> [] | Inr ps \<Rightarrow> ps) \<and>
        trace st' = trace st @ policy_session (next_id st) c
           (take k (case py_iter pd of Inl e \<Rightarrow> [] | Inr ps \<Rightarrow> ps)))"
proof (cases "policy_checker m")
  case None
  with a show ?thesis by (simp add: collaborate_policies_def)
next
  case (Some c)
  show ?thesis
  proof (cases "truthy pd")
    case False
    with a Some show ?thesis by (simp add: collaborate_policies_def)
  next
    case True
    let ?lp = "next_id st"
    let ?st2 = "set_event_loop ?lp (snd (new_event_loop st))"
    have t2: "trace ?st2 = trace st @ [New_event_loop ?lp, Set_event_loop ?lp]"
      by (simp add: new_event_loop_def set_event_loop_def log_event_def)
    show ?thesis
    proof (cases "py_iter pd")
      case (Inl e)
      with a Some True have "trace st' = trace st @ policy_session ?lp c (take 0 [])"
        by (auto simp: collaborate_policies_def new_event_loop_def set_event_loop_def
            loop_close_def log_event_def Let_def policy_runs_def policy_session_def)
      with Inl show ?thesis by auto
    next
      case (Inr ps)
      from analyze_policies_trace [of ps W ?lp c "[]" ?st2] obtain k where
        k: "k \<le> length ps"
           "trace (snd (analyze_policies W ?lp c ps [] ?st2)) =
              trace ?st2 @ policy_runs ?lp c (take k ps)"
        by blast
      from a Some True Inr
      have "st' = loop_close ?lp (snd (analyze_policies W ?lp c ps [] ?st2))"
        by (auto simp: collaborate_policies_def new_event_loop_def Let_def split: prod.splits)
      with k(2) t2 have "trace st' = trace st @ policy_session ?lp c (take k ps)"
        by (simp add: loop_close_def log_event_def policy_session_def)
      with k(1) Inr show ?thesis by auto
    qed
  qed
qed

text \<open>
  The four shapes of the log of \<^verbatim>\<open>api_agents_collaborate\<close>: nothing, the coordinator's
  loop, the policy checker's loop, or the one after the other.
\<close>

lemma api_agents_collaborate_try_shape:
  "events_since st (snd (api_agents_collaborate_try W req st)) = [] \<or>
   (\<exists>co. events_since st (snd (api_agents_collaborate_try W req st)) =
      coordinator_session (next_id st) co) \<or>
   (\<exists>c k. k \<le> length (requested_policies req) \<and>
      events_since st (snd (api_agents_collaborate_try W req st)) =
        policy_session (next_id st) c (take k (requested_policies req))) \<or>
   (\<exists>co c k. k \<le> length (requested_policies req) \<and>
      events_since st (snd (api_agents_collaborate_try W req st)) =
        coordinator_session (next_id st) co @
        policy_session (Suc (next_id st)) c (take k (requested_policies req)))"
  apply (auto simp: api_agents_collaborate_try_def get_agent_manager_def events_since_def
        requested_policies_def Let_def
      split: sum.splits prod.splits
      dest!: collaborate_scenario_trace collaborate_policies_trace)
  apply blast+
  done

lemma api_agents_collaborate_try_loops:
  "unclosed (events_since st (snd (api_agents_collaborate_try W req st))) = [] \<and>
   (\<exists>k\<le>length (requested_policies req).
      loop_usage (events_since st (snd (api_agents_collaborate_try W req st)))
        \<in> {[], [1], [k], [1, k]})"
  using api_agents_collaborate_try_shape [of st W req]
  by (auto simp: coordinator_session_def policy_session_def loop_usage_def)

text \<open>
  C1.  In the log of each of the six API handlers that create event loops, every loop
  created during the request is closed later in the same request.  This holds for every
  world, so on every path: whether the request parses or not, and whether the awaited
  coroutine returns or raises.
\<close>

theorem loops_closed_before_return:
  "unclosed (events_since st (snd (api_create_scenario W req now st))) = [] \<and>
   unclosed (events_since st (snd (api_get_weather W lat lon st))) = [] \<and>
   unclosed (events_since st (snd (api_policy_analyze W req st))) = [] \<and>
   unclosed (events_since st (snd (api_citizen_chat W req st))) = [] \<and>
   unclosed (events_since st (snd (api_document_process W req st))) = [] \<and>
   unclosed (events_since st (snd (api_agents_collaborate W req st))) = []"
  by (simp add: snd_api_handlers api_create_scenario_try_loops api_get_weather_try_loops
        api_policy_analyze_try_loops api_citizen_chat_try_loops
        api_document_process_try_loops api_agents_collaborate_try_loops)


theorem loops_closed_before_return_witness:
  "fst (api_citizen_chat_try raising_world chat_request full_state) = Inl boom \<and>
   events_since full_state (snd (api_citizen_chat raising_world chat_request full_state)) =
     [New_event_loop 4, Set_event_loop 4,
      Run_until_complete 4 (Co_chat (Agent VirtualCitizenAssistant 2) (PStr ''hi'')),
      Loop_close 4] \<and>
   unclosed (events_since full_state
      (snd (api_citizen_chat raising_world chat_request full_state))) = []"
  using loops_closed_before_return
    [of full_state raising_world chat_request "Datetime 2025 1 2 3 4 5 0" "''1.5''" "''1.5''"]
  by (simp add: api_citizen_chat_def api_citizen_chat_try_def chat_request_def py_get_def
        get_agent_manager_def full_state_def raising_world_def demo_world_def
        events_since_def new_event_loop_def set_event_loop_def run_until_complete_def
        loop_close_def log_event_def Let_def)




end
